theory Spec2Isabelle
  imports Complex_Main "HOL-Library.Sublist"
begin

section \<open>Data model\<close>

text \<open>
  Orders are plain JavaScript objects that live in \<^verbatim>\<open>data/orders.json\<close>. The model
  gives every key the program ever writes a field of option type: \<open>None\<close> says that the
  object has no such key (reading it yields \<^verbatim>\<open>undefined\<close>), \<open>Some v\<close> that it holds
  \<open>v\<close>. Strict equality \<^verbatim>\<open>===\<close> of two such reads is equality of the options.

  A time stamp is the instant read by \<^verbatim>\<open>new Date()\<close>, in milliseconds;
  \<^verbatim>\<open>toISOString\<close> renders instants injectively, so the model stores the instant.
  A price is a number that is only copied and compared.
\<close>

type_synonym timestamp = nat

datatype jstr = JNull | JStr string

record product =
  pid :: "string option"
  name :: "string option"
  price :: "rat option"

text \<open>The payment object; \<open>pay_method\<close> is its key \<^verbatim>\<open>method\<close>.\<close>

record payment =
  pay_method :: "jstr option"
  provider :: "jstr option"
  url :: "jstr option"
  transactionId :: "jstr option"
  paidAmount :: "jstr option"

record order =
  oid :: "string option"
  status :: "string option"
  createdAt :: "timestamp option"
  paidAt :: "timestamp option"
  guildId :: "string option"
  channelId :: "string option"
  userId :: "string option"
  userTag :: "string option"
  product :: "product option"
  payment :: "payment option"

text \<open>
  The file holds \<^verbatim>\<open>{ orders: [...] }\<close>; \<^verbatim>\<open>ensureDataFiles\<close> writes an empty list
  when the file is missing, before every read and every write, so a missing file and an
  empty list are the same state. The state of the store is the list.
\<close>

type_synonym db = "order list"

section \<open>Object spread\<close>

text \<open>
  \<^verbatim>\<open>{ ...a, ...b }\<close> one key at a time: the value of \<open>b\<close> where \<open>b\<close> has the key,
  the value of \<open>a\<close> otherwise. A key that holds \<^verbatim>\<open>undefined\<close> is not written to
  the file, and no caller spreads an object with such a key.
\<close>

definition over :: "'a option \<Rightarrow> 'a option \<Rightarrow> 'a option" where
  "over new old = (case new of None \<Rightarrow> old | Some v \<Rightarrow> Some v)"

definition spread_order :: "order \<Rightarrow> order \<Rightarrow> order" where
  "spread_order a b =
     \<lparr> oid = over (oid b) (oid a),
       status = over (status b) (status a),
       createdAt = over (createdAt b) (createdAt a),
       paidAt = over (paidAt b) (paidAt a),
       guildId = over (guildId b) (guildId a),
       channelId = over (channelId b) (channelId a),
       userId = over (userId b) (userId a),
       userTag = over (userTag b) (userTag a),
       product = over (product b) (product a),
       payment = over (payment b) (payment a) \<rparr>"

definition spread_payment :: "payment \<Rightarrow> payment \<Rightarrow> payment" where
  "spread_payment a b =
     \<lparr> pay_method = over (pay_method b) (pay_method a),
       provider = over (provider b) (provider a),
       url = over (url b) (url a),
       transactionId = over (transactionId b) (transactionId a),
       paidAmount = over (paidAmount b) (paidAmount a) \<rparr>"

text \<open>The object \<^verbatim>\<open>{}\<close>, which spreading \<^verbatim>\<open>undefined\<close> yields.\<close>

definition no_payment :: payment where
  "no_payment =
     \<lparr> pay_method = None, provider = None, url = None, transactionId = None, paidAmount = None \<rparr>"

section \<open>The order store\<close>

text \<open>
  The module \<^verbatim>\<open>utils/store.js\<close> that index.js imports; its text is the last part of
  \<^verbatim>\<open>crystal/utils/crypto.js\<close>. Errors of the file system are outside the model.
\<close>

text \<open>\<^verbatim>\<open>Array.prototype.findIndex\<close>, with \<open>None\<close> for \<^verbatim>\<open>-1\<close>.\<close>

fun findIndex :: "('a \<Rightarrow> bool) \<Rightarrow> 'a list \<Rightarrow> nat option" where
  "findIndex P [] = None"
| "findIndex P (x # xs) = (if P x then Some 0 else map_option Suc (findIndex P xs))"

text \<open>
  \<^verbatim>\<open>upsertOrder(order)\<close>: the pair of the value returned and the list written back.
\<close>

definition upsertOrder :: "db \<Rightarrow> order \<Rightarrow> order \<times> db" where
  "upsertOrder orders ord =
     (case findIndex (\<lambda>r. oid r = oid ord) orders of
        None \<Rightarrow> (ord, orders @ [ord])
      | Some idx \<Rightarrow> (ord, orders[idx := spread_order (orders ! idx) ord]))"

definition getOrderById :: "db \<Rightarrow> string \<Rightarrow> order option" where
  "getOrderById orders i = find (\<lambda>r. oid r = Some i) orders"

definition getOrderByChannelId :: "db \<Rightarrow> string \<Rightarrow> order option" where
  "getOrderByChannelId orders c = find (\<lambda>r. channelId r = Some c) orders"

text \<open>
  \<^verbatim>\<open>markPaid(id, payment)\<close> at clock reading \<open>now\<close>: \<open>None\<close> is the \<^verbatim>\<open>null\<close> it
  returns for an unknown id, before anything is written.
\<close>

definition markPaid :: "db \<Rightarrow> string \<Rightarrow> payment \<Rightarrow> timestamp \<Rightarrow> order option \<times> db" where
  "markPaid orders i pay now =
     (case getOrderById orders i of
        None \<Rightarrow> (None, orders)
      | Some ord \<Rightarrow>
          (let ord' = ord\<lparr> status := Some ''paid'',
                            paidAt := Some now,
                            payment := Some (spread_payment
                              (case payment ord of None \<Rightarrow> no_payment | Some p \<Rightarrow> p) pay) \<rparr>
           in (Some ord', snd (upsertOrder orders ord'))))"

section \<open>JavaScript helpers\<close>










text \<open>
  \<^verbatim>\<open>s.split(":")[1]\<close>: the text between the first colon and the next one;
  \<open>None\<close> (\<^verbatim>\<open>undefined\<close>) when \<open>s\<close> has no colon.
\<close>

definition split_1 :: "string \<Rightarrow> string option" where
  "split_1 s =
     (case dropWhile (\<lambda>c. c \<noteq> CHR '':'') s of
        [] \<Rightarrow> None
      | _ # rest \<Rightarrow> Some (takeWhile (\<lambda>c. c \<noteq> CHR '':'') rest))"

definition startsWith :: "string option \<Rightarrow> string \<Rightarrow> bool" where
  "startsWith v p = (case v of None \<Rightarrow> False | Some s \<Rightarrow> prefix p s)"

section \<open>Environment, responses and external actions\<close>




section \<open>Webhook endpoints (crystal/index.js)\<close>













section \<open>Button handlers (crystal/index.js)\<close>

text \<open>
  What a button interaction carries. \<open>channel_name\<close> is \<^verbatim>\<open>i.channel?.name\<close>,
  \<open>is_staff\<close> the value of \<^verbatim>\<open>isStaff(i.member)\<close>, and \<open>send_resolves\<close> says
  whether the message the handler posts into the channel after its write goes through.
\<close>

record interaction =
  customId :: string
  i_guildId :: string
  i_channelId :: string
  user_id :: string
  user_tag :: string
  channel_name :: "string option"
  is_staff :: bool
  send_resolves :: bool

datatype reply =
    NoReply
  | ProductNotFound
  | ChoosePaymentMethod
  | UseInsideTicket
  | OnlyOwnerOrStaff
  | AlreadyPending "string option"
  | OrderNotFound
  | AlreadyPaid
  | PaymentLinkSent
  | ErrorReply

text \<open>
  The order literal of the product-selection handlers, with \<open>orderId\<close> the value of
  \<^verbatim>\<open>uuid()\<close> and \<open>now\<close> the clock.
\<close>

definition new_order :: "interaction \<Rightarrow> product \<Rightarrow> string \<Rightarrow> timestamp \<Rightarrow> order" where
  "new_order i prd orderId now =
     \<lparr> oid = Some orderId,
       status = Some ''pending'',
       createdAt = Some now,
       paidAt = None,
       guildId = Some (i_guildId i),
       channelId = Some (i_channelId i),
       userId = Some (user_id i),
       userTag = Some (user_tag i),
       product = Some \<lparr> pid = pid prd, name = name prd, price = price prd \<rparr>,
       payment = Some \<lparr> pay_method = Some JNull, provider = Some JNull, url = Some JNull,
                        transactionId = Some JNull, paidAmount = Some JNull \<rparr> \<rparr>"

text \<open>
  The \<^verbatim>\<open>choose_prod:\<close> branch of crystal/index.js. An interaction with another
  custom id is not for this branch.
\<close>

definition choose_prod ::
  "product list \<Rightarrow> interaction \<Rightarrow> string \<Rightarrow> timestamp \<Rightarrow> db \<Rightarrow> reply \<times> db" where
  "choose_prod products i orderId now orders =
     (if \<not> prefix ''choose_prod:'' (customId i) then (NoReply, orders)
      else
        (let prodId = split_1 (customId i)
         in case find (\<lambda>p. pid p = prodId) products of
              None \<Rightarrow> (ProductNotFound, orders)
            | Some prd \<Rightarrow>
                (let orders' = snd (upsertOrder orders (new_order i prd orderId now))
                 in if send_resolves i then (ChoosePaymentMethod, orders')
                    else (ErrorReply, orders'))))"

text \<open>
  The same branch in the later revision of the bot (\<^verbatim>\<open>unnamed/part_004\<close>, the one
  with \<^verbatim>\<open>acquireLock\<close>; \<^verbatim>\<open>unnamed/part_001\<close> has the same checks), which looks the
  channel's order up first. The channel name starts with \<^verbatim>\<open>ticket-\<close> where the owner
  is computed, so replacing that prefix by nothing drops seven characters.
\<close>

definition choose_prod_guarded ::
  "product list \<Rightarrow> interaction \<Rightarrow> string \<Rightarrow> timestamp \<Rightarrow> db \<Rightarrow> reply \<times> db" where
  "choose_prod_guarded products i orderId now orders =
     (if \<not> prefix ''choose_prod:'' (customId i) then (NoReply, orders)
      else if \<not> startsWith (channel_name i) ''ticket-'' then (UseInsideTicket, orders)
      else
        (let ticketOwner = map_option (drop 7) (channel_name i)
         in if ticketOwner \<noteq> Some (user_id i) \<and> \<not> is_staff i then (OnlyOwnerOrStaff, orders)
            else
              (let prodId = split_1 (customId i)
               in case find (\<lambda>p. pid p = prodId) products of
                    None \<Rightarrow> (ProductNotFound, orders)
                  | Some prd \<Rightarrow>
                      (let existingOrder = getOrderByChannelId orders (i_channelId i);
                           blocked =
                             (case existingOrder of
                                None \<Rightarrow> False
                              | Some ex \<Rightarrow> status ex \<noteq> Some ''paid'')
                       in if blocked
                          then (AlreadyPending (case existingOrder of None \<Rightarrow> None | Some ex \<Rightarrow> oid ex),
                                orders)
                          else
                            (let orders' = snd (upsertOrder orders (new_order i prd orderId now))
                             in if send_resolves i then (ChoosePaymentMethod, orders')
                                else (ErrorReply, orders'))))))"

text \<open>
  What the gateway adapters hand back to the pay handlers; \<open>None\<close> in the handler's
  argument says that the adapter threw.
\<close>

record crypto_invoice =
  inv_url :: string
  inv_uuid :: "jstr option"

record checkout_session =
  cs_url :: "jstr option"
  cs_id :: "jstr option"

text \<open>
  The \<^verbatim>\<open>pay_crypto:\<close> branch. The adapter is called with \<^verbatim>\<open>order.product.price\<close>,
  which throws on an order without product; every exception ends in the error reply
  with nothing written.
\<close>

definition pay_crypto :: "crypto_invoice option \<Rightarrow> interaction \<Rightarrow> db \<Rightarrow> reply \<times> db" where
  "pay_crypto invoice i orders =
     (if \<not> prefix ''pay_crypto:'' (customId i) then (NoReply, orders)
      else
        (case split_1 (customId i) of
           None \<Rightarrow> (NoReply, orders)
         | Some orderId \<Rightarrow>
             (case getOrderById orders orderId of
                None \<Rightarrow> (OrderNotFound, orders)
              | Some ord \<Rightarrow>
                  if status ord = Some ''paid'' then (AlreadyPaid, orders)
                  else
                    (case product ord of
                       None \<Rightarrow> (ErrorReply, orders)
                     | Some _ \<Rightarrow>
                         (case invoice of
                            None \<Rightarrow> (ErrorReply, orders)
                          | Some v \<Rightarrow>
                              (let pay = (case payment ord of None \<Rightarrow> no_payment | Some p \<Rightarrow> p)
                                           \<lparr> pay_method := Some (JStr ''crypto''),
                                             provider := Some (JStr ''cryptomus''),
                                             url := Some (JStr (inv_url v)),
                                             transactionId := inv_uuid v \<rparr>;
                                   orders' = snd (upsertOrder orders (ord\<lparr> payment := Some pay \<rparr>))
                               in if send_resolves i then (PaymentLinkSent, orders')
                                  else (ErrorReply, orders')))))))"

text \<open>The \<^verbatim>\<open>pay_stripe:\<close> branch, of the same shape.\<close>

definition pay_stripe :: "checkout_session option \<Rightarrow> interaction \<Rightarrow> db \<Rightarrow> reply \<times> db" where
  "pay_stripe session i orders =
     (if \<not> prefix ''pay_stripe:'' (customId i) then (NoReply, orders)
      else
        (case split_1 (customId i) of
           None \<Rightarrow> (NoReply, orders)
         | Some orderId \<Rightarrow>
             (case getOrderById orders orderId of
                None \<Rightarrow> (OrderNotFound, orders)
              | Some ord \<Rightarrow>
                  if status ord = Some ''paid'' then (AlreadyPaid, orders)
                  else
                    (case product ord of
                       None \<Rightarrow> (ErrorReply, orders)
                     | Some _ \<Rightarrow>
                         (case session of
                            None \<Rightarrow> (ErrorReply, orders)
                          | Some v \<Rightarrow>
                              (let pay = (case payment ord of None \<Rightarrow> no_payment | Some p \<Rightarrow> p)
                                           \<lparr> pay_method := Some (JStr ''stripe''),
                                             provider := Some (JStr ''stripe''),
                                             url := cs_url v,
                                             transactionId := cs_id v \<rparr>;
                                   orders' = snd (upsertOrder orders (ord\<lparr> payment := Some pay \<rparr>))
                               in if send_resolves i then (PaymentLinkSent, orders')
                                  else (ErrorReply, orders')))))))"

section \<open>The close command (crystal/index.js)\<close>






section \<open>Sample data\<close>

text \<open>The order of the scenarios: a pending order \<^verbatim>\<open>O1\<close> for Gold Pack in channel \<^verbatim>\<open>C1\<close>.\<close>

definition gold_pack :: product where
  "gold_pack = \<lparr> pid = Some ''gold'', name = Some ''Gold Pack'', price = Some (999 / 100) \<rparr>"

definition order_O1 :: order where
  "order_O1 =
     \<lparr> oid = Some ''O1'', status = Some ''pending'', createdAt = Some 1000, paidAt = None,
       guildId = Some ''G1'', channelId = Some ''C1'', userId = Some ''U1'',
       userTag = Some ''buyer#0001'', product = Some gold_pack,
       payment = Some \<lparr> pay_method = Some JNull, provider = Some JNull, url = Some JNull,
                        transactionId = Some JNull, paidAmount = Some JNull \<rparr> \<rparr>"

text \<open>The payment fields of a confirmed card payment of 9.99 USD.\<close>

definition card_paid :: payment where
  "card_paid =
     \<lparr> pay_method = Some (JStr ''stripe''), provider = Some (JStr ''stripe''), url = None,
       transactionId = Some (JStr ''pi_1''), paidAmount = Some (JStr ''$9.99'') \<rparr>"

text \<open>The object \<^verbatim>\<open>{ id: "O1", status: "paid" }\<close>.\<close>

definition status_only :: order where
  "status_only =
     \<lparr> oid = Some ''O1'', status = Some ''paid'', createdAt = None, paidAt = None,
       guildId = None, channelId = None, userId = None, userTag = None,
       product = None, payment = None \<rparr>"

text \<open>An earlier order of the same channel, paid.\<close>

definition paid_O0 :: order where
  "paid_O0 = order_O1 \<lparr> oid := Some ''O0'', status := Some ''paid'', paidAt := Some 900 \<rparr>"









text \<open>The buyer \<^verbatim>\<open>U1\<close> pressing the Gold Pack button in the ticket channel \<^verbatim>\<open>C1\<close>.\<close>

definition click_gold :: interaction where
  "click_gold =
     \<lparr> customId = ''choose_prod:gold'', i_guildId = ''G1'', i_channelId = ''C1'',
       user_id = ''U1'', user_tag = ''buyer#0001'', channel_name = Some ''ticket-U1'',
       is_staff = False, send_resolves = True \<rparr>"



section \<open>Lemmas on the store\<close>

lemma over_simps [simp]:
  "over None old = old"
  "over (Some v) old = Some v"
  by (simp_all add: over_def)

lemma over_idem [simp]: "over x x = x"
  by (cases x) simp_all

lemma over_over [simp]: "over x (over x y) = over x y"
  by (cases x) simp_all

lemma findIndex_None_iff: "findIndex P xs = None \<longleftrightarrow> (\<forall>x \<in> set xs. \<not> P x)"
  by (induction xs) auto

lemma findIndex_Some:
  "findIndex P xs = Some n \<Longrightarrow> n < length xs \<and> P (xs ! n) \<and> (\<forall>m < n. \<not> P (xs ! m))"
proof (induction xs arbitrary: n)
  case Nil
  then show ?case by simp
next
  case (Cons x xs)
  show ?case
  proof (cases "P x")
    case True
    with Cons.prems show ?thesis by simp
  next
    case False
    with Cons.prems obtain k where k: "findIndex P xs = Some k" "n = Suc k"
      by auto
    from Cons.IH [OF k(1)] False k(2) show ?thesis
      by (auto simp: nth_Cons split: nat.splits)
  qed
qed

lemma find_findIndex_same:
  "find P xs = Some x \<Longrightarrow> \<exists>n. findIndex P xs = Some n \<and> n < length xs \<and> xs ! n = x"
  by (induction xs) (auto split: if_splits)

text \<open>Writing a matching record at the index found keeps it the first match.\<close>

lemma find_list_update:
  "findIndex P xs = Some n \<Longrightarrow> P y \<Longrightarrow> find P (xs[n := y]) = Some y"
proof (induction xs arbitrary: n)
  case Nil
  then show ?case by simp
next
  case (Cons x xs)
  then show ?case by (cases "P x") auto
qed

lemma findIndex_list_update:
  "findIndex P xs = Some n \<Longrightarrow> P y \<Longrightarrow> findIndex P (xs[n := y]) = Some n"
proof (induction xs arbitrary: n)
  case Nil
  then show ?case by simp
next
  case (Cons x xs)
  then show ?case by (cases "P x") auto
qed

lemma map_list_update_same:
  "n < length xs \<Longrightarrow> f y = f (xs ! n) \<Longrightarrow> map f (xs[n := y]) = map f xs"
  by (simp add: map_update list_update_same_conv)

text \<open>
  An object read from the store and then assigned some of its keys has every key of the
  stored one, so spreading it over the stored one gives the object itself.
\<close>

lemma spread_order_touched:
  "spread_order a (a\<lparr>status := Some s, paidAt := Some t, payment := Some p\<rparr>) =
   a\<lparr>status := Some s, paidAt := Some t, payment := Some p\<rparr>"
  by (simp add: spread_order_def)

lemma spread_order_payment:
  "spread_order a (a\<lparr>payment := Some p\<rparr>) = a\<lparr>payment := Some p\<rparr>"
  by (simp add: spread_order_def)

lemma spread_payment_twice:
  "spread_payment (spread_payment a b) b = spread_payment a b"
  by (simp add: spread_payment_def)

lemma markPaid_not_found:
  "getOrderById orders i = None \<Longrightarrow> markPaid orders i pay now = (None, orders)"
  by (simp add: markPaid_def)

lemma markPaid_found:
  assumes "getOrderById orders i = Some ord"
  shows "\<exists>n. findIndex (\<lambda>r. oid r = Some i) orders = Some n \<and> n < length orders \<and>
     orders ! n = ord \<and>
     markPaid orders i pay now =
       (Some (ord\<lparr> status := Some ''paid'', paidAt := Some now,
                payment := Some (spread_payment
                  (case payment ord of None \<Rightarrow> no_payment | Some p \<Rightarrow> p) pay) \<rparr>),
        orders[n := ord\<lparr> status := Some ''paid'', paidAt := Some now,
                payment := Some (spread_payment
                  (case payment ord of None \<Rightarrow> no_payment | Some p \<Rightarrow> p) pay) \<rparr>])"
proof -
  from assms obtain n where
    n: "findIndex (\<lambda>r. oid r = Some i) orders = Some n" "n < length orders" "orders ! n = ord"
    using find_findIndex_same unfolding getOrderById_def by fastforce
  from findIndex_Some [OF n(1)] n(3) have "oid ord = Some i" by simp
  with n show ?thesis using assms
    by (simp add: markPaid_def upsertOrder_def Let_def spread_order_touched)
qed

lemma getOrderById_after_markPaid:
  assumes "getOrderById orders i = Some ord"
  shows "getOrderById (snd (markPaid orders i pay now)) i =
     Some (ord\<lparr> status := Some ''paid'', paidAt := Some now,
              payment := Some (spread_payment
                (case payment ord of None \<Rightarrow> no_payment | Some p \<Rightarrow> p) pay) \<rparr>)"
proof -
  from markPaid_found [OF assms, of pay now] obtain n where
    n: "findIndex (\<lambda>r. oid r = Some i) orders = Some n" "orders ! n = ord"
    and m: "snd (markPaid orders i pay now) =
      orders[n := ord\<lparr> status := Some ''paid'', paidAt := Some now,
                payment := Some (spread_payment
                  (case payment ord of None \<Rightarrow> no_payment | Some p \<Rightarrow> p) pay) \<rparr>]"
    by auto
  from findIndex_Some [OF n(1)] n(2) have "oid ord = Some i" by simp
  then show ?thesis
    unfolding m getOrderById_def
    by (intro find_list_update [OF n(1)]) simp
qed

text \<open>
  Two calls with the same payment fields, at clock readings \<open>t1\<close> and \<open>t2\<close>, return and
  store what one call at \<open>t2\<close> does.
\<close>

lemma markPaid_twice:
  "markPaid (snd (markPaid orders i pay t1)) i pay t2 = markPaid orders i pay t2"
proof (cases "getOrderById orders i")
  case None
  then show ?thesis by (simp add: markPaid_not_found)
next
  case (Some ord)
  let ?p = "\<lambda>r. spread_payment (case payment r of None \<Rightarrow> no_payment | Some p \<Rightarrow> p) pay"
  let ?o1 = "ord\<lparr> status := Some ''paid'', paidAt := Some t1, payment := Some (?p ord) \<rparr>"
  let ?o2 = "ord\<lparr> status := Some ''paid'', paidAt := Some t2, payment := Some (?p ord) \<rparr>"
  from markPaid_found [OF Some, of pay t1] obtain n where
    n: "findIndex (\<lambda>r. oid r = Some i) orders = Some n" "n < length orders" "orders ! n = ord"
    and m1: "markPaid orders i pay t1 = (Some ?o1, orders[n := ?o1])"
    by auto
  from markPaid_found [OF Some, of pay t2] n(1) have
    m2: "markPaid orders i pay t2 = (Some ?o2, orders[n := ?o2])"
    by auto
  have g1: "getOrderById (orders[n := ?o1]) i = Some ?o1"
    using getOrderById_after_markPaid [OF Some, of pay t1] m1 by simp
  from markPaid_found [OF g1, of pay t2] obtain k where
    k: "findIndex (\<lambda>r. oid r = Some i) (orders[n := ?o1]) = Some k"
    and m3: "markPaid (orders[n := ?o1]) i pay t2 =
       (Some (?o1\<lparr> status := Some ''paid'', paidAt := Some t2, payment := Some (?p ?o1) \<rparr>),
        (orders[n := ?o1])
          [k := ?o1\<lparr> status := Some ''paid'', paidAt := Some t2, payment := Some (?p ?o1) \<rparr>])"
    by auto
  from findIndex_Some [OF n(1)] n(3) have "oid ord = Some i" by simp
  then have "findIndex (\<lambda>r. oid r = Some i) (orders[n := ?o1]) = Some n"
    using n(1) by (intro findIndex_list_update) simp_all
  with k have kn: "k = n" by simp
  have same: "?o1\<lparr> status := Some ''paid'', paidAt := Some t2, payment := Some (?p ?o1) \<rparr> = ?o2"
    by (simp add: spread_payment_twice)
  show ?thesis
    unfolding m1 snd_conv m3 m2 kn same by simp
qed

text \<open>The ids and the product snapshots of the stored orders, in the order of the file.\<close>

lemma markPaid_frame:
  "map (\<lambda>r. (oid r, product r)) (snd (markPaid orders i pay now)) =
   map (\<lambda>r. (oid r, product r)) orders"
proof (cases "getOrderById orders i")
  case None
  then show ?thesis by (simp add: markPaid_not_found)
next
  case (Some ord)
  from markPaid_found [OF Some, of pay now] show ?thesis
    by (auto simp: map_list_update_same)
qed

lemma upsert_payment_frame:
  assumes "getOrderById orders i = Some ord"
  shows "map (\<lambda>r. (oid r, product r)) (snd (upsertOrder orders (ord\<lparr> payment := Some p \<rparr>))) =
     map (\<lambda>r. (oid r, product r)) orders"
proof -
  from assms obtain n where
    n: "findIndex (\<lambda>r. oid r = Some i) orders = Some n" "n < length orders" "orders ! n = ord"
    using find_findIndex_same unfolding getOrderById_def by fastforce
  from findIndex_Some [OF n(1)] n(3) have "oid ord = Some i" by simp
  with n show ?thesis
    by (simp add: upsertOrder_def spread_order_payment map_list_update_same)
qed

text \<open>
  The same for a write that comes after other handlers have run: the object read earlier,
  with a new payment, written over a store whose record of that id still has the
  product that was read.
\<close>

lemma upsert_snapshot_frame:
  assumes "findIndex (\<lambda>r. oid r = oid ord) orders = Some n"
    and "product (orders ! n) = product ord"
  shows "map (\<lambda>r. (oid r, product r)) (snd (upsertOrder orders (ord\<lparr> payment := Some p \<rparr>))) =
     map (\<lambda>r. (oid r, product r)) orders"
proof -
  from findIndex_Some [OF assms(1)] have n: "n < length orders" "oid (orders ! n) = oid ord"
    by simp_all
  with assms show ?thesis
    by (simp add: upsertOrder_def spread_order_def map_list_update_same)
qed

lemma pay_crypto_frame:
  "map (\<lambda>r. (oid r, product r)) (snd (pay_crypto invoice i orders)) =
   map (\<lambda>r. (oid r, product r)) orders"
  by (simp add: pay_crypto_def Let_def upsert_payment_frame split: option.splits)

lemma pay_stripe_frame:
  "map (\<lambda>r. (oid r, product r)) (snd (pay_stripe session i orders)) =
   map (\<lambda>r. (oid r, product r)) orders"
  by (simp add: pay_stripe_def Let_def upsert_payment_frame split: option.splits)

lemma get_O1: "getOrderById [order_O1] ''O1'' = Some order_O1"
  by (simp add: getOrderById_def order_O1_def)

section \<open>Claims about the order store\<close>

text \<open>
  C1, as the code has it. On an existing order, two calls of \<open>markPaid\<close> with the same
  payment fields return and store exactly what a single call made at the time of the
  second one does; the status is \<open>paid\<close>; the stored order is the one the first call
  left, with \<open>paidAt\<close> set to the time of the second call; and when both calls read the
  same time the second call changes nothing.
\<close>

theorem C1_markPaid_twice:
  assumes "getOrderById orders i = Some ord"
  shows "markPaid (snd (markPaid orders i pay t1)) i pay t2 = markPaid orders i pay t2 \<and>
    map_option status (getOrderById (snd (markPaid (snd (markPaid orders i pay t1)) i pay t2)) i)
      = Some (Some ''paid'') \<and>
    getOrderById (snd (markPaid (snd (markPaid orders i pay t1)) i pay t2)) i
      = map_option (\<lambda>r. r\<lparr> paidAt := Some t2 \<rparr>) (getOrderById (snd (markPaid orders i pay t1)) i) \<and>
    (t2 = t1 \<longrightarrow>
       snd (markPaid (snd (markPaid orders i pay t1)) i pay t2) = snd (markPaid orders i pay t1))"
  by (simp add: markPaid_twice getOrderById_after_markPaid [OF assms])

theorem C1_markPaid_twice_witness:
  "getOrderById [order_O1] ''O1'' = Some order_O1 \<and>
   markPaid (snd (markPaid [order_O1] ''O1'' card_paid 1)) ''O1'' card_paid 2
     = markPaid [order_O1] ''O1'' card_paid 2 \<and>
   map_option status
     (getOrderById (snd (markPaid (snd (markPaid [order_O1] ''O1'' card_paid 1)) ''O1'' card_paid 2))
        ''O1'') = Some (Some ''paid'') \<and>
   snd (markPaid (snd (markPaid [order_O1] ''O1'' card_paid 3)) ''O1'' card_paid 3)
     = snd (markPaid [order_O1] ''O1'' card_paid 3)"
  using get_O1 C1_markPaid_twice [OF get_O1, of card_paid 1 2]
    C1_markPaid_twice [OF get_O1, of card_paid 3 3]
  by blast

text \<open>
  C1 as the claim states it fails: with the clock at 1 for the first call and at 2 for the
  second, the stored list after the second call is not the list after the first.
\<close>

theorem C1_record_not_identical:
  "snd (markPaid (snd (markPaid [order_O1] ''O1'' card_paid 1)) ''O1'' card_paid 2)
     \<noteq> snd (markPaid [order_O1] ''O1'' card_paid 1) \<and>
   map paidAt (snd (markPaid [order_O1] ''O1'' card_paid 1)) = [Some 1] \<and>
   map paidAt (snd (markPaid (snd (markPaid [order_O1] ''O1'' card_paid 1)) ''O1'' card_paid 2))
     = [Some 2]"
  by (simp add: markPaid_def getOrderById_def upsertOrder_def order_O1_def Let_def spread_order_def)

text \<open>
  C5. For an id that no stored order carries, \<open>markPaid\<close> returns the not-found value
  and the list of stored orders is the one it was: nothing added, removed or changed.
\<close>

theorem C5_markPaid_unknown_id:
  assumes "\<forall>r \<in> set orders. oid r \<noteq> Some i"
  shows "markPaid orders i pay now = (None, orders)"
proof -
  from assms have "find (\<lambda>r. oid r = Some i) orders = None"
    by (simp add: find_None_iff)
  then show ?thesis
    by (simp add: markPaid_def getOrderById_def)
qed

theorem C5_markPaid_unknown_id_witness:
  "oid order_O1 \<noteq> Some ''O2'' \<and>
   markPaid [order_O1] ''O2'' card_paid 5 = (None, [order_O1])"
proof -
  have h: "\<forall>r \<in> set [order_O1]. oid r \<noteq> Some ''O2''"
    by (simp add: order_O1_def)
  show ?thesis using h C5_markPaid_unknown_id [OF h, of card_paid 5] by simp
qed

text \<open>
  C6, as the code has it. \<open>upsertOrder\<close> returns its argument. When no stored record has
  the argument's id the argument is appended, so the value returned is the record
  stored; otherwise the first record with that id is replaced by the spread of the
  argument over it, and every other record stays.
\<close>

theorem C6_upsert:
  "fst (upsertOrder orders ord) = ord \<and>
   ((\<forall>r \<in> set orders. oid r \<noteq> oid ord) \<longrightarrow> snd (upsertOrder orders ord) = orders @ [ord]) \<and>
   ((\<exists>r \<in> set orders. oid r = oid ord) \<longrightarrow>
      (\<exists>n < length orders. oid (orders ! n) = oid ord \<and> (\<forall>m < n. oid (orders ! m) \<noteq> oid ord) \<and>
         snd (upsertOrder orders ord) = orders[n := spread_order (orders ! n) ord]))"
proof (cases "findIndex (\<lambda>r. oid r = oid ord) orders")
  case None
  then have "\<forall>r \<in> set orders. oid r \<noteq> oid ord"
    by (simp add: findIndex_None_iff)
  with None show ?thesis by (auto simp: upsertOrder_def)
next
  case (Some n)
  from findIndex_Some [OF Some] have
    "n < length orders \<and> oid (orders ! n) = oid ord \<and> (\<forall>m < n. oid (orders ! m) \<noteq> oid ord)"
    by simp
  moreover from this have "\<exists>r \<in> set orders. oid r = oid ord"
    using nth_mem by blast
  ultimately show ?thesis using Some
    by (auto simp: upsertOrder_def)
qed

theorem C6_upsert_witness:
  "upsertOrder [] order_O1 = (order_O1, [order_O1]) \<and>
   (\<exists>r \<in> set [order_O1]. oid r = oid status_only) \<and>
   upsertOrder [order_O1] status_only = (status_only, [spread_order order_O1 status_only])"
proof -
  have h: "\<exists>r \<in> set [order_O1]. oid r = oid status_only"
    by (simp add: order_O1_def status_only_def)
  from C6_upsert [of "[order_O1]" status_only] h
  have "upsertOrder [order_O1] status_only = (status_only, [spread_order order_O1 status_only])"
    by (auto simp: prod_eq_iff)
  moreover from C6_upsert [of "[]" order_O1]
  have "upsertOrder [] order_O1 = (order_O1, [order_O1])"
    by (auto simp: prod_eq_iff)
  ultimately show ?thesis using h by simp
qed

text \<open>
  C6 as the claim states it fails: upserting \<^verbatim>\<open>{ id: "O1", status: "paid" }\<close> over the
  stored order \<^verbatim>\<open>O1\<close> returns that two-key object, and the record stored is another.
\<close>

theorem C6_returns_argument_not_stored:
  "fst (upsertOrder [order_O1] status_only) \<noteq> snd (upsertOrder [order_O1] status_only) ! 0 \<and>
   fst (upsertOrder [order_O1] status_only) = status_only \<and>
   snd (upsertOrder [order_O1] status_only) = [order_O1 \<lparr> status := Some ''paid'' \<rparr>]"
  by (simp add: upsertOrder_def order_O1_def status_only_def spread_order_def)

text \<open>
  C9. \<open>markPaid\<close> and the upserts of the two pay handlers leave the id and the product
  snapshot (id, name, price) of every stored order as they were, and add or remove no
  order.
\<close>

theorem C9_product_snapshot_kept:
  "map (\<lambda>r. (oid r, product r)) (snd (markPaid orders i pay now)) =
     map (\<lambda>r. (oid r, product r)) orders \<and>
   map (\<lambda>r. (oid r, product r)) (snd (pay_crypto invoice b orders)) =
     map (\<lambda>r. (oid r, product r)) orders \<and>
   map (\<lambda>r. (oid r, product r)) (snd (pay_stripe session b orders)) =
     map (\<lambda>r. (oid r, product r)) orders"
  by (simp add: markPaid_frame pay_crypto_frame pay_stripe_frame)

text \<open>
  C10. On an existing order \<open>markPaid\<close> stores the current time as \<open>paidAt\<close>, whatever
  was there: after a first delivery at \<open>t1\<close> and a second at a later \<open>t2\<close>, \<open>paidAt\<close> is
  \<open>t2\<close>, not the \<open>t1\<close> of the first.
\<close>

theorem C10_markPaid_restamps:
  assumes "getOrderById orders i = Some ord"
  shows "map_option paidAt (getOrderById (snd (markPaid orders i pay now)) i) = Some (Some now) \<and>
    (t1 < t2 \<longrightarrow>
       map_option paidAt (getOrderById (snd (markPaid orders i pay t1)) i) = Some (Some t1) \<and>
       map_option paidAt
         (getOrderById (snd (markPaid (snd (markPaid orders i pay t1)) i pay t2)) i) = Some (Some t2) \<and>
       Some t2 \<noteq> Some t1)"
  by (simp add: markPaid_twice getOrderById_after_markPaid [OF assms])

theorem C10_markPaid_restamps_witness:
  "getOrderById [order_O1] ''O1'' = Some order_O1 \<and> (1::nat) < 2 \<and>
   map_option paidAt (getOrderById (snd (markPaid [order_O1] ''O1'' card_paid 1)) ''O1'')
     = Some (Some 1) \<and>
   map_option paidAt
     (getOrderById (snd (markPaid (snd (markPaid [order_O1] ''O1'' card_paid 1)) ''O1'' card_paid 2))
        ''O1'') = Some (Some 2)"
  using get_O1 C10_markPaid_restamps [OF get_O1, of card_paid 1 1 2] by simp

section \<open>Lemmas on the handlers\<close>




lemma split_click: "split_1 ''choose_prod:gold'' = Some ''gold''"
  by code_simp




text \<open>The guard of the later revision stops a selection when the first order of the channel is unpaid.\<close>

lemma choose_prod_guarded_blocks:
  assumes "getOrderByChannelId orders (i_channelId i) = Some ex" and "status ex \<noteq> Some ''paid''"
  shows "snd (choose_prod_guarded products i orderId now orders) = orders"
  using assms by (simp add: choose_prod_guarded_def Let_def split: option.splits)




section \<open>Claims about the webhook endpoints\<close>







section \<open>Claims about the ticket handlers\<close>

text \<open>
  C3 fails on the code. In crystal/index.js a second selection in channel \<^verbatim>\<open>C1\<close>, which
  holds the pending order \<^verbatim>\<open>O1\<close>, stores a second pending order for the channel. The
  revision that looks the channel's order up first stops that selection, but it looks at
  the first order of the channel only: after a selection, its payment and two more
  selections the channel holds two pending orders.
\<close>

theorem C3_second_pending_order:
  "map (\<lambda>r. (oid r, channelId r, status r))
     (snd (choose_prod [gold_pack] click_gold ''O2'' 2000 [order_O1]))
     = [(Some ''O1'', Some ''C1'', Some ''pending''), (Some ''O2'', Some ''C1'', Some ''pending'')] \<and>
   fst (choose_prod_guarded [gold_pack] click_gold ''O2'' 2000 [order_O1])
     = AlreadyPending (Some ''O1'') \<and>
   map (\<lambda>r. (oid r, channelId r, status r))
     (snd (choose_prod_guarded [gold_pack] click_gold ''O2'' 2000
       (snd (choose_prod_guarded [gold_pack] click_gold ''O1'' 1500
         (snd (markPaid (snd (choose_prod_guarded [gold_pack] click_gold ''O0'' 1000 []))
                 ''O0'' card_paid 1200))))))
     = [(Some ''O0'', Some ''C1'', Some ''paid''), (Some ''O1'', Some ''C1'', Some ''pending''),
        (Some ''O2'', Some ''C1'', Some ''pending'')]"
  by (simp add: choose_prod_def choose_prod_guarded_def click_gold_def split_click gold_pack_def
      upsertOrder_def new_order_def order_O1_def Let_def startsWith_def getOrderByChannelId_def
      getOrderById_def markPaid_def spread_order_def)



end
